theory Spec2Isabelle
  imports Main
begin

section \<open>The notification system of \<^verbatim>\<open>main.cpp\<close>\<close>

text \<open>
  The program wires an observer (\<^verbatim>\<open>Subscriber\<close>, \<^verbatim>\<open>User\<close>), a factory
  (\<^verbatim>\<open>NotificationFactory\<close>) and a singleton (\<^verbatim>\<open>NotificationManager\<close>) together.
  Every function of the program is modelled as a transformer of the state it can reach.
  What the program prints is the character stream \<open>cout\<close>; the virtual calls it makes
  are recorded, in order, in \<open>calls\<close>.
\<close>

subsection \<open>Objects and the world\<close>

type_synonym addr = nat

text \<open>\<^verbatim>\<open>class User : public Subscriber\<close> is the only subscriber class; its one field is \<^verbatim>\<open>name\<close>.\<close>

datatype Subscriber = User (name: string)

text \<open>The three classes derived from \<^verbatim>\<open>Notification\<close>; none has a field.\<close>

datatype Notification = EmailNotification | SMSNotification | PushNotification

text \<open>A virtual call: \<^verbatim>\<open>notification->send(message)\<close> or \<^verbatim>\<open>subscriber->update(message)\<close>.\<close>

datatype call = Send Notification string | Update addr string

text \<open>
  A pointer is an address. Calling through a pointer that is null or whose address holds
  no live object is undefined behaviour in C++; the model stops there with a fault.
\<close>

datatype fault = InvalidPointer addr | NullPointer

record world =
  objects :: "addr \<rightharpoonup> Subscriber"
  cout :: string
  calls :: "call list"

text \<open>\<^verbatim>\<open>std::endl\<close> writes a newline character.\<close>

definition endl :: string where
  "endl = [CHR 0x0A]"

subsection \<open>Observer\<close>

text \<open>\<^verbatim>\<open>std::cout << name << " received notification: " << message << std::endl;\<close>\<close>

definition User_update :: "Subscriber \<Rightarrow> string \<Rightarrow> world \<Rightarrow> world" where
  "User_update this message w =
     w\<lparr>cout := cout w @ name this @ '' received notification: '' @ message @ endl\<rparr>"

text \<open>\<^verbatim>\<open>subscriber->update(message)\<close>: the call is recorded and dispatched to \<^verbatim>\<open>User::update\<close>.\<close>

definition update :: "addr \<Rightarrow> string \<Rightarrow> world \<Rightarrow> fault + world" where
  "update subscriber message w =
     (case objects w subscriber of
        None \<Rightarrow> Inl (InvalidPointer subscriber)
      | Some this \<Rightarrow>
          Inr (User_update this message (w\<lparr>calls := calls w @ [Update subscriber message]\<rparr>)))"

subsection \<open>Factory\<close>

definition EmailNotification_send :: "string \<Rightarrow> world \<Rightarrow> world" where
  "EmailNotification_send message w = w\<lparr>cout := cout w @ ''Sending Email: '' @ message @ endl\<rparr>"

definition SMSNotification_send :: "string \<Rightarrow> world \<Rightarrow> world" where
  "SMSNotification_send message w = w\<lparr>cout := cout w @ ''Sending SMS: '' @ message @ endl\<rparr>"

definition PushNotification_send :: "string \<Rightarrow> world \<Rightarrow> world" where
  "PushNotification_send message w =
     w\<lparr>cout := cout w @ ''Sending Push Notification: '' @ message @ endl\<rparr>"

text \<open>\<^verbatim>\<open>notification->send(message)\<close>: the call is recorded and dispatched on the dynamic class.\<close>

definition send :: "Notification \<Rightarrow> string \<Rightarrow> world \<Rightarrow> world" where
  "send notification message w =
     (let w' = w\<lparr>calls := calls w @ [Send notification message]\<rparr> in
      case notification of
        EmailNotification \<Rightarrow> EmailNotification_send message w'
      | SMSNotification \<Rightarrow> SMSNotification_send message w'
      | PushNotification \<Rightarrow> PushNotification_send message w')"

text \<open>
  \<^verbatim>\<open>NotificationFactory::createNotification\<close>. The result \<open>None\<close> is \<^verbatim>\<open>nullptr\<close>.
  The function is static, so the state it could reach is the world.
\<close>

definition createNotification :: "string \<Rightarrow> world \<Rightarrow> Notification option \<times> world" where
  "createNotification type w =
     (if type = ''email'' then (Some EmailNotification, w)
      else if type = ''sms'' then (Some SMSNotification, w)
      else if type = ''push'' then (Some PushNotification, w)
      else (None, w))"

subsection \<open>Manager\<close>

text \<open>\<^verbatim>\<open>std::map<std::string, std::vector<Subscriber*>> subscribers\<close>\<close>

type_synonym registry = "string \<rightharpoonup> addr list"

record NotificationManager =
  subscribers :: registry

text \<open>The defaulted constructor: the map starts empty.\<close>

definition NotificationManager_new :: NotificationManager where
  "NotificationManager_new = \<lparr>subscribers = Map.empty\<rparr>"

text \<open>
  \<^verbatim>\<open>std::map::operator[]\<close>: an absent key is inserted with an empty vector first;
  the result is the vector at the key, together with the map as it is afterwards.
\<close>

definition operator_index :: "string \<Rightarrow> registry \<Rightarrow> addr list \<times> registry" where
  "operator_index key m =
     (case m key of
        None \<Rightarrow> ([], m(key \<mapsto> []))
      | Some vec \<Rightarrow> (vec, m))"

text \<open>\<^verbatim>\<open>subscribers[notificationType].push_back(subscriber);\<close>\<close>

definition subscribe ::
  "string \<Rightarrow> addr \<Rightarrow> NotificationManager \<times> world \<Rightarrow> NotificationManager \<times> world" where
  "subscribe notificationType subscriber s =
     (case s of (this, w) \<Rightarrow>
        (let (vec, m) = operator_index notificationType (subscribers this)
         in (this\<lparr>subscribers := m(notificationType \<mapsto> vec @ [subscriber])\<rparr>, w)))"

text \<open>The range-based \<^verbatim>\<open>for\<close> loop of \<^verbatim>\<open>notifySubscribers\<close>, front to back.\<close>

fun notify_loop :: "addr list \<Rightarrow> string \<Rightarrow> world \<Rightarrow> fault + world" where
  "notify_loop [] message w = Inr w"
| "notify_loop (subscriber # rest) message w =
     (case update subscriber message w of
        Inl f \<Rightarrow> Inl f
      | Inr w' \<Rightarrow> notify_loop rest message w')"

text \<open>
  \<^verbatim>\<open>notifySubscribers\<close>: the loop runs over \<^verbatim>\<open>subscribers[notificationType]\<close>, guarded by
  \<^verbatim>\<open>subscribers.find(notificationType) != subscribers.end()\<close>.
\<close>

definition notifySubscribers ::
  "string \<Rightarrow> string \<Rightarrow> NotificationManager \<times> world \<Rightarrow> fault + NotificationManager \<times> world" where
  "notifySubscribers notificationType message s =
     (case s of (this, w) \<Rightarrow>
        if subscribers this notificationType \<noteq> None
        then (let (vec, m) = operator_index notificationType (subscribers this) in
              case notify_loop vec message w of
                Inl f \<Rightarrow> Inl f
              | Inr w' \<Rightarrow> Inr (this\<lparr>subscribers := m\<rparr>, w'))
        else Inr (this, w))"

definition sendNotification ::
  "string \<Rightarrow> string \<Rightarrow> NotificationManager \<times> world \<Rightarrow> fault + NotificationManager \<times> world" where
  "sendNotification notificationType message s =
     (case s of (this, w) \<Rightarrow>
        (let (notification, w1) = createNotification notificationType w in
         case notification of
           Some n \<Rightarrow> notifySubscribers notificationType message (this, send n message w1)
         | None \<Rightarrow>
             Inr (this, w1\<lparr>cout := cout w1 @ ''Invalid notification type: '' @ notificationType @ endl\<rparr>)))"

subsection \<open>Singleton\<close>

text \<open>
  The static \<^verbatim>\<open>NotificationManager* instance\<close> (\<open>None\<close> is \<^verbatim>\<open>nullptr\<close>) and the managers
  that \<^verbatim>\<open>new NotificationManager()\<close> has created so far; the address of a manager is its
  position in \<open>heap\<close>.
\<close>

record process =
  instance_ptr :: "addr option"
  heap :: "NotificationManager list"

text \<open>\<^verbatim>\<open>NotificationManager* NotificationManager::instance = nullptr;\<close>\<close>

definition process_start :: process where
  "process_start = \<lparr>instance_ptr = None, heap = []\<rparr>"

definition getInstance :: "process \<Rightarrow> addr option \<times> process" where
  "getInstance p =
     (let p' = (if instance_ptr p = None
                then p\<lparr>heap := heap p @ [NotificationManager_new],
                       instance_ptr := Some (length (heap p))\<rparr>
                else p)
      in (instance_ptr p', p'))"

text \<open>\<open>n\<close> calls of \<^verbatim>\<open>getInstance\<close> in a row: the pointers returned, and the process afterwards.\<close>

fun getInstance_calls :: "nat \<Rightarrow> process \<Rightarrow> addr option list \<times> process" where
  "getInstance_calls 0 p = ([], p)"
| "getInstance_calls (Suc n) p =
     (let (ptr, p') = getInstance p;
          (ptrs, p'') = getInstance_calls n p'
      in (ptr # ptrs, p''))"

subsection \<open>The main program\<close>

text \<open>\<^verbatim>\<open>manager->method(...)\<close>: the method runs on the manager that the pointer refers to.\<close>

definition call_on ::
  "addr option \<Rightarrow> (NotificationManager \<times> world \<Rightarrow> fault + NotificationManager \<times> world) \<Rightarrow>
   process \<times> world \<Rightarrow> fault + process \<times> world" where
  "call_on manager method s =
     (case s of (p, w) \<Rightarrow>
        (case manager of
           None \<Rightarrow> Inl NullPointer
         | Some a \<Rightarrow>
             if a < length (heap p)
             then (case method (heap p ! a, w) of
                     Inl f \<Rightarrow> Inl f
                   | Inr (this, w') \<Rightarrow> Inr (p\<lparr>heap := (heap p)[a := this]\<rparr>, w'))
             else Inl (InvalidPointer a)))"

text \<open>Statements in sequence; a fault ends the run.\<close>

fun statements :: "('s \<Rightarrow> fault + 's) list \<Rightarrow> 's \<Rightarrow> fault + 's" where
  "statements [] s = Inr s"
| "statements (stmt # rest) s =
     (case stmt s of
        Inl f \<Rightarrow> Inl f
      | Inr s' \<Rightarrow> statements rest s')"

text \<open>
  Lines 113 to 123 of \<^verbatim>\<open>main\<close>: the manager is fetched, \<^verbatim>\<open>alice\<close> and \<^verbatim>\<open>bob\<close> are
  constructed at their addresses, and the four subscriptions are made. Nothing has been
  printed before.
\<close>

definition main_subscribe :: "addr \<Rightarrow> addr \<Rightarrow> addr option \<times> (fault + process \<times> world)" where
  "main_subscribe alice bob =
     (let (manager, p) = getInstance process_start;
          w = \<lparr>objects = [alice \<mapsto> User ''Alice'', bob \<mapsto> User ''Bob''], cout = [], calls = []\<rparr>
      in (manager,
          statements
            [call_on manager (\<lambda>s. Inr (subscribe ''email'' alice s)),
             call_on manager (\<lambda>s. Inr (subscribe ''sms'' bob s)),
             call_on manager (\<lambda>s. Inr (subscribe ''push'' alice s)),
             call_on manager (\<lambda>s. Inr (subscribe ''push'' bob s))]
            (p, w)))"

text \<open>Lines 126 to 130: the three notifications, then \<^verbatim>\<open>return 0\<close>.\<close>

definition main :: "addr \<Rightarrow> addr \<Rightarrow> fault + int \<times> process \<times> world" where
  "main alice bob =
     (case main_subscribe alice bob of
        (manager, Inl f) \<Rightarrow> Inl f
      | (manager, Inr s) \<Rightarrow>
          (case statements
                  [call_on manager (sendNotification ''email'' ''Your order has been placed.''),
                   call_on manager (sendNotification ''sms'' ''Your order is on the way.''),
                   call_on manager (sendNotification ''push'' ''Your order has been delivered.'')]
                  s of
             Inl f \<Rightarrow> Inl f
           | Inr s' \<Rightarrow> Inr (0, s')))"

subsection \<open>Vocabulary of the properties\<close>

text \<open>The subscribers registered on a channel, in the order of the registry's sequence.\<close>

definition subscribers_of :: "NotificationManager \<Rightarrow> string \<Rightarrow> addr list" where
  "subscribers_of this channel =
     (case subscribers this channel of None \<Rightarrow> [] | Some vec \<Rightarrow> vec)"

text \<open>Every pointer of the sequence refers to a live subscriber.\<close>

definition live :: "world \<Rightarrow> addr list \<Rightarrow> bool" where
  "live w vec = list_all (\<lambda>a. objects w a \<noteq> None) vec"

text \<open>The line that the subscriber at an address prints on receipt of a message.\<close>

definition received_line :: "world \<Rightarrow> string \<Rightarrow> addr \<Rightarrow> string" where
  "received_line w message a =
     (case objects w a of
        None \<Rightarrow> []
      | Some (User n) \<Rightarrow> n @ '' received notification: '' @ message @ endl)"

text \<open>The three channel names that the factory knows.\<close>

definition channels :: "string set" where
  "channels = {''email'', ''sms'', ''push''}"

text \<open>No key of the registry holds an empty sequence.\<close>

definition no_empty_entry :: "NotificationManager \<Rightarrow> bool" where
  "no_empty_entry this = ([] \<notin> ran (subscribers this))"

text \<open>A call of one of the manager's three public member functions, with its arguments.\<close>

datatype request =
  Subscribe string addr
| NotifySubscribers string string
| SendNotification string string

fun perform ::
  "request \<Rightarrow> NotificationManager \<times> world \<Rightarrow> fault + NotificationManager \<times> world" where
  "perform (Subscribe notificationType subscriber) s = Inr (subscribe notificationType subscriber s)"
| "perform (NotifySubscribers notificationType message) s = notifySubscribers notificationType message s"
| "perform (SendNotification notificationType message) s = sendNotification notificationType message s"

text \<open>
  The subscribers that a sequence of calls registers on a channel, in the order of the
  \<open>subscribe\<close> calls.
\<close>

fun registered :: "string \<Rightarrow> request list \<Rightarrow> addr list" where
  "registered channel [] = []"
| "registered channel (Subscribe notificationType subscriber # reqs) =
     (if notificationType = channel then subscriber # registered channel reqs
      else registered channel reqs)"
| "registered channel (NotifySubscribers notificationType message # reqs) = registered channel reqs"
| "registered channel (SendNotification notificationType message # reqs) = registered channel reqs"

text \<open>\<^verbatim>\<open>NotificationManager::getInstance()->f(...)\<close>: how a client reaches the manager.\<close>

definition on_instance :: "request \<Rightarrow> process \<times> world \<Rightarrow> fault + process \<times> world" where
  "on_instance r s =
     (case s of (p, w) \<Rightarrow>
        (let (manager, p') = getInstance p in call_on manager (perform r) (p', w)))"

section \<open>Properties\<close>

subsection \<open>Auxiliary facts\<close>

lemma update_live:
  "objects w a \<noteq> None \<Longrightarrow>
   update a msg w =
     Inr (w\<lparr>cout := cout w @ received_line w msg a, calls := calls w @ [Update a msg]\<rparr>)"
  by (auto simp: update_def User_update_def received_line_def split: Subscriber.splits)

lemma notify_loop_live:
  "live w vec \<Longrightarrow>
   notify_loop vec msg w =
     Inr (w\<lparr>cout := cout w @ concat (map (received_line w msg) vec),
            calls := calls w @ map (\<lambda>a. Update a msg) vec\<rparr>)"
proof (induction vec arbitrary: w)
  case Nil
  show ?case by simp
next
  case (Cons a vec)
  let ?w = "w\<lparr>cout := cout w @ received_line w msg a, calls := calls w @ [Update a msg]\<rparr>"
  from Cons.prems have a: "objects w a \<noteq> None" and rest: "live ?w vec"
    by (simp_all add: live_def)
  have same: "received_line ?w msg = received_line w msg"
    by (rule ext) (simp add: received_line_def)
  show ?case
    by (simp add: update_live [OF a] Cons.IH [OF rest] same)
qed

lemma operator_index_present:
  "m key = Some vec \<Longrightarrow> operator_index key m = (vec, m)"
  by (simp add: operator_index_def)

lemma notifySubscribers_present:
  assumes "subscribers this channel = Some vec" and "live w vec"
  shows "notifySubscribers channel msg (this, w) =
           Inr (this, w\<lparr>cout := cout w @ concat (map (received_line w msg) vec),
                        calls := calls w @ map (\<lambda>a. Update a msg) vec\<rparr>)"
  using assms
  by (simp add: notifySubscribers_def operator_index_present notify_loop_live)

lemma notifySubscribers_absent:
  "subscribers this channel = None \<Longrightarrow> notifySubscribers channel msg (this, w) = Inr (this, w)"
  by (simp add: notifySubscribers_def)

lemma notifySubscribers_live:
  assumes "live w (subscribers_of this channel)"
  shows "notifySubscribers channel msg (this, w) =
           Inr (this, w\<lparr>cout := cout w @ concat (map (received_line w msg) (subscribers_of this channel)),
                        calls := calls w @ map (\<lambda>a. Update a msg) (subscribers_of this channel)\<rparr>)"
proof (cases "subscribers this channel")
  case None
  then show ?thesis
    by (simp add: notifySubscribers_absent subscribers_of_def)
next
  case (Some vec)
  with assms show ?thesis
    by (simp add: notifySubscribers_present subscribers_of_def)
qed

lemma createNotification_known:
  "channel \<in> channels \<Longrightarrow>
   createNotification channel w =
     (Some (if channel = ''email'' then EmailNotification
            else if channel = ''sms'' then SMSNotification
            else PushNotification), w)"
  by (auto simp: createNotification_def channels_def)

lemma createNotification_unknown:
  "channel \<notin> channels \<Longrightarrow> createNotification channel w = (None, w)"
  by (simp add: createNotification_def channels_def)

lemma sendNotification_known:
  assumes "channel \<in> channels" and "live w (subscribers_of this channel)"
  shows "sendNotification channel msg (this, w) =
           Inr (this,
                (send (if channel = ''email'' then EmailNotification
                       else if channel = ''sms'' then SMSNotification
                       else PushNotification) msg w)
                \<lparr>cout := cout (send (if channel = ''email'' then EmailNotification
                                     else if channel = ''sms'' then SMSNotification
                                     else PushNotification) msg w)
                          @ concat (map (received_line w msg) (subscribers_of this channel)),
                  calls := calls w
                          @ Send (if channel = ''email'' then EmailNotification
                                  else if channel = ''sms'' then SMSNotification
                                  else PushNotification) msg
                          # map (\<lambda>a. Update a msg) (subscribers_of this channel)\<rparr>)"
proof -
  let ?n = "if channel = ''email'' then EmailNotification
            else if channel = ''sms'' then SMSNotification
            else PushNotification"
  have objs: "objects (send ?n msg w) = objects w"
    by (simp add: send_def Let_def EmailNotification_send_def SMSNotification_send_def
        PushNotification_send_def)
  have cs: "calls (send ?n msg w) = calls w @ [Send ?n msg]"
    by (simp add: send_def Let_def EmailNotification_send_def SMSNotification_send_def
        PushNotification_send_def)
  have lv: "live (send ?n msg w) (subscribers_of this channel)"
    using assms(2) by (simp add: live_def objs)
  have rl: "received_line (send ?n msg w) msg = received_line w msg"
    by (rule ext) (simp add: received_line_def objs)
  show ?thesis
    by (simp add: sendNotification_def createNotification_known [OF assms(1)]
        notifySubscribers_live [OF lv] rl cs del: if_cancel)
qed

lemma send_cout:
  "cout (send n msg w) =
     cout w @ (case n of EmailNotification \<Rightarrow> ''Sending Email: ''
               | SMSNotification \<Rightarrow> ''Sending SMS: ''
               | PushNotification \<Rightarrow> ''Sending Push Notification: '') @ msg @ endl"
  by (cases n)
    (simp_all add: send_def EmailNotification_send_def SMSNotification_send_def
      PushNotification_send_def)

lemma named_subscribers:
  "map (objects w) vec = map (\<lambda>n. Some (User n)) names \<Longrightarrow>
   live w vec \<and>
   map (received_line w msg) vec = map (\<lambda>n. n @ '' received notification: '' @ msg @ endl) names"
  by (induction vec arbitrary: names) (auto simp: live_def received_line_def)

lemma notifySubscribers_frame:
  "notifySubscribers channel msg (this, w) = Inr (this', w') \<Longrightarrow> this' = this"
  by (auto simp: notifySubscribers_def operator_index_def split: if_splits sum.splits)

lemma sendNotification_frame:
  "sendNotification channel msg (this, w) = Inr (this', w') \<Longrightarrow> this' = this"
  by (auto simp: sendNotification_def createNotification_def
      dest: notifySubscribers_frame split: if_splits)

lemma no_empty_entry_iff:
  "no_empty_entry this \<longleftrightarrow> (\<forall>key. subscribers this key \<noteq> Some [])"
  by (auto simp: no_empty_entry_def ran_def)

lemma subscribe_no_empty_entry:
  "no_empty_entry this \<Longrightarrow> no_empty_entry (fst (subscribe channel a (this, w)))"
  by (simp add: no_empty_entry_iff subscribe_def operator_index_def split: option.splits)

lemma perform_no_empty_entry:
  "perform r (this, w) = Inr (this', w') \<Longrightarrow> no_empty_entry this \<Longrightarrow> no_empty_entry this'"
proof (cases r)
  case (Subscribe channel a)
  assume "perform r (this, w) = Inr (this', w')" and inv: "no_empty_entry this"
  with Subscribe have "this' = fst (subscribe channel a (this, w))"
    by auto
  with inv show ?thesis
    by (simp only: subscribe_no_empty_entry)
next
  case (NotifySubscribers channel msg)
  assume "perform r (this, w) = Inr (this', w')" and "no_empty_entry this"
  with NotifySubscribers show ?thesis
    by (auto dest: notifySubscribers_frame)
next
  case (SendNotification channel msg)
  assume "perform r (this, w) = Inr (this', w')" and "no_empty_entry this"
  with SendNotification show ?thesis
    by (auto dest: sendNotification_frame)
qed

lemma statements_perform_no_empty_entry:
  "statements (map perform reqs) (this, w) = Inr (this', w') \<Longrightarrow> no_empty_entry this \<Longrightarrow>
   no_empty_entry this'"
proof (induction reqs arbitrary: this w)
  case Nil
  then show ?case by simp
next
  case (Cons r reqs)
  from Cons.prems(1) obtain this1 w1 where
    step: "perform r (this, w) = Inr (this1, w1)" and
    rest: "statements (map perform reqs) (this1, w1) = Inr (this', w')"
    by (auto split: sum.splits)
  from perform_no_empty_entry [OF step Cons.prems(2)] have "no_empty_entry this1" .
  with Cons.IH [OF rest] show ?case .
qed

lemma subscribe_subscribers_of:
  "subscribers_of (fst (subscribe notificationType a (this, w))) channel =
     (if notificationType = channel then subscribers_of this channel @ [a]
      else subscribers_of this channel)"
  by (simp add: subscribe_def operator_index_def subscribers_of_def split: option.splits)

lemma perform_registered:
  "perform r (this, w) = Inr (this', w') \<Longrightarrow>
   subscribers_of this' channel = subscribers_of this channel @ registered channel [r]"
proof (cases r)
  case (Subscribe notificationType a)
  assume "perform r (this, w) = Inr (this', w')"
  with Subscribe have "this' = fst (subscribe notificationType a (this, w))"
    by auto
  with Subscribe show ?thesis
    by (simp add: subscribe_subscribers_of)
next
  case (NotifySubscribers notificationType msg)
  assume "perform r (this, w) = Inr (this', w')"
  with NotifySubscribers show ?thesis
    by (auto dest: notifySubscribers_frame)
next
  case (SendNotification notificationType msg)
  assume "perform r (this, w) = Inr (this', w')"
  with SendNotification show ?thesis
    by (auto dest: sendNotification_frame)
qed

lemma registered_Cons:
  "registered channel (r # reqs) = registered channel [r] @ registered channel reqs"
  by (cases r) simp_all

lemma statements_perform_registered:
  "statements (map perform reqs) (this, w) = Inr (this', w') \<Longrightarrow>
   subscribers_of this' channel = subscribers_of this channel @ registered channel reqs"
proof (induction reqs arbitrary: this w)
  case Nil
  then show ?case by simp
next
  case (Cons r reqs)
  from Cons.prems obtain this1 w1 where
    step: "perform r (this, w) = Inr (this1, w1)" and
    rest: "statements (map perform reqs) (this1, w1) = Inr (this', w')"
    by (auto split: sum.splits)
  from Cons.IH [OF rest] perform_registered [OF step, of channel] show ?case
    by (simp add: registered_Cons [of channel r reqs])
qed

lemma registration_order:
  "statements (map perform reqs) (NotificationManager_new, w0) = Inr (this, w) \<Longrightarrow>
   subscribers_of this channel = registered channel reqs"
  using statements_perform_registered [of reqs NotificationManager_new w0 this w channel]
  by (simp add: subscribers_of_def NotificationManager_new_def)

lemma getInstance_created:
  "instance_ptr p = Some a \<Longrightarrow> getInstance p = (Some a, p)"
  by (simp add: getInstance_def)

lemma getInstance_calls_created:
  "instance_ptr p = Some a \<Longrightarrow> getInstance_calls n p = (replicate n (Some a), p)"
  by (induction n) (simp_all add: getInstance_created)

lemma getInstance_start:
  "getInstance process_start = (Some 0, \<lparr>instance_ptr = Some 0, heap = [NotificationManager_new]\<rparr>)"
  by (simp add: getInstance_def process_start_def)

lemma call_on_process:
  "call_on manager method (p, w) = Inr (p', w') \<Longrightarrow>
   instance_ptr p' = instance_ptr p \<and> length (heap p') = length (heap p)"
  by (auto simp: call_on_def split: option.splits if_splits sum.splits)

lemma on_instance_single:
  assumes "on_instance r (p, w) = Inr (p', w')"
      and "instance_ptr p = None \<and> heap p = [] \<or> instance_ptr p = Some 0 \<and> length (heap p) = 1"
  shows "instance_ptr p' = Some 0 \<and> length (heap p') = 1"
proof -
  obtain manager p1 where g: "getInstance p = (manager, p1)"
    by (cases "getInstance p")
  with assms(2) have p1: "instance_ptr p1 = Some 0 \<and> length (heap p1) = 1"
    by (auto simp: getInstance_def)
  from assms(1) g have "call_on manager (perform r) (p1, w) = Inr (p', w')"
    by (simp add: on_instance_def)
  from call_on_process [OF this] p1 show ?thesis
    by simp
qed

lemma statements_on_instance_single:
  "statements (map on_instance reqs) (p, w) = Inr (p', w') \<Longrightarrow> reqs \<noteq> [] \<Longrightarrow>
   instance_ptr p = None \<and> heap p = [] \<or> instance_ptr p = Some 0 \<and> length (heap p) = 1 \<Longrightarrow>
   instance_ptr p' = Some 0 \<and> length (heap p') = 1"
proof (induction reqs arbitrary: p w)
  case Nil
  then show ?case by simp
next
  case (Cons r reqs)
  from Cons.prems(1) obtain p1 w1 where
    step: "on_instance r (p, w) = Inr (p1, w1)" and
    rest: "statements (map on_instance reqs) (p1, w1) = Inr (p', w')"
    by (auto split: sum.splits)
  from on_instance_single [OF step Cons.prems(3)]
  have p1: "instance_ptr p1 = Some 0 \<and> length (heap p1) = 1" .
  show ?case
  proof (cases reqs)
    case Nil
    with rest p1 show ?thesis by simp
  next
    case (Cons r' reqs')
    then have "reqs \<noteq> []" by simp
    from Cons.IH [OF rest this] p1 show ?thesis by simp
  qed
qed

subsection \<open>The claims\<close>

text \<open>
  C1. On a channel that the factory knows (\<open>email\<close>, \<open>sms\<close>, \<open>push\<close>), with every
  registered subscriber alive, \<open>sendNotification\<close> completes; the factory's result is the
  notification of the class that matches the channel; and the calls it makes are exactly
  one \<open>send\<close> of the message on that notification, then one \<open>update\<close> of the message for
  each subscriber in the channel's sequence, front to back. That sequence is the order of
  registration: when the state was reached from a fresh manager by a series of member
  calls, it lists the subscribers in the order of the \<open>subscribe\<close> calls on the channel.
\<close>

theorem sendNotification_calls:
  assumes "channel \<in> channels" and "live w (subscribers_of this channel)"
  shows "\<exists>n w'.
           n = (if channel = ''email'' then EmailNotification
                else if channel = ''sms'' then SMSNotification
                else PushNotification) \<and>
           fst (createNotification channel w) = Some n \<and>
           sendNotification channel msg (this, w) = Inr (this, w') \<and>
           calls w' = calls w @ Send n msg # map (\<lambda>a. Update a msg) (subscribers_of this channel) \<and>
           (statements (map perform reqs) (NotificationManager_new, w0) = Inr (this, w) \<longrightarrow>
              subscribers_of this channel = registered channel reqs)"
  using registration_order [of reqs w0 this w channel]
  by (simp add: sendNotification_known [OF assms] createNotification_known [OF assms(1)])

theorem sendNotification_calls_witness:
  "''sms'' \<in> channels \<and>
   live \<lparr>objects = [1 \<mapsto> User ''Alice'', 2 \<mapsto> User ''Bob''], cout = [], calls = []\<rparr>
     (subscribers_of \<lparr>subscribers = [''email'' \<mapsto> [1], ''sms'' \<mapsto> [2, 1, 2]]\<rparr> ''sms'') \<and>
   statements
     (map perform [Subscribe ''sms'' 2, Subscribe ''email'' 1, Subscribe ''sms'' 1, Subscribe ''sms'' 2])
     (NotificationManager_new,
      \<lparr>objects = [1 \<mapsto> User ''Alice'', 2 \<mapsto> User ''Bob''], cout = [], calls = []\<rparr>)
     = Inr (\<lparr>subscribers = [''email'' \<mapsto> [1], ''sms'' \<mapsto> [2, 1, 2]]\<rparr>,
            \<lparr>objects = [1 \<mapsto> User ''Alice'', 2 \<mapsto> User ''Bob''], cout = [], calls = []\<rparr>) \<and>
   (\<exists>w'. fst (createNotification ''sms''
             \<lparr>objects = [1 \<mapsto> User ''Alice'', 2 \<mapsto> User ''Bob''], cout = [], calls = []\<rparr>)
          = Some SMSNotification \<and>
         sendNotification ''sms'' ''hi''
           (\<lparr>subscribers = [''email'' \<mapsto> [1], ''sms'' \<mapsto> [2, 1, 2]]\<rparr>,
            \<lparr>objects = [1 \<mapsto> User ''Alice'', 2 \<mapsto> User ''Bob''], cout = [], calls = []\<rparr>)
          = Inr (\<lparr>subscribers = [''email'' \<mapsto> [1], ''sms'' \<mapsto> [2, 1, 2]]\<rparr>, w') \<and>
         calls w' = [Send SMSNotification ''hi'', Update 2 ''hi'', Update 1 ''hi'', Update 2 ''hi'']) \<and>
   subscribers_of \<lparr>subscribers = [''email'' \<mapsto> [1], ''sms'' \<mapsto> [2, 1, 2]]\<rparr> ''sms''
     = registered ''sms''
         [Subscribe ''sms'' 2, Subscribe ''email'' 1, Subscribe ''sms'' 1, Subscribe ''sms'' 2]"
proof -
  let ?w = "\<lparr>objects = [1 \<mapsto> User ''Alice'', 2 \<mapsto> User ''Bob''], cout = [], calls = []\<rparr>"
  let ?mgr = "\<lparr>subscribers = [''email'' \<mapsto> [1], ''sms'' \<mapsto> [2, 1, 2]]\<rparr>"
  let ?reqs = "[Subscribe ''sms'' 2, Subscribe ''email'' 1, Subscribe ''sms'' 1, Subscribe ''sms'' 2]"
  have c: "''sms'' \<in> channels"
    by (simp add: channels_def)
  have v: "subscribers_of ?mgr ''sms'' = [2, 1, 2]"
    by (simp add: subscribers_of_def)
  have l: "live ?w (subscribers_of ?mgr ''sms'')"
    unfolding v by (simp add: live_def)
  have "Map.empty(''sms'' \<mapsto> [2::nat], ''email'' \<mapsto> [1], ''sms'' \<mapsto> [2, 1], ''sms'' \<mapsto> [2, 1, 2])
      = [''email'' \<mapsto> [1], ''sms'' \<mapsto> [2, 1, 2]]"
    by (rule ext) simp
  then have run: "statements (map perform ?reqs) (NotificationManager_new, ?w) = Inr (?mgr, ?w)"
    by (simp add: NotificationManager_new_def subscribe_def operator_index_def)
  note inst = sendNotification_calls [OF c l, of "''hi''" ?reqs ?w, unfolded v]
  from inst run have order: "[2, 1, 2] = registered ''sms'' ?reqs"
    by blast
  from inst have "\<exists>w'. fst (createNotification ''sms'' ?w) = Some SMSNotification \<and>
      sendNotification ''sms'' ''hi'' (?mgr, ?w) = Inr (?mgr, w') \<and>
      calls w' = [Send SMSNotification ''hi'', Update 2 ''hi'', Update 1 ''hi'', Update 2 ''hi'']"
    by auto
  with c l run order show ?thesis
    unfolding v by blast
qed

text \<open>
  C2. On any other channel name, \<open>sendNotification\<close> completes, appends exactly the line
  \<open>Invalid notification type: <channel>\<close> to the output and makes no call at all, so no
  subscriber is updated, whatever the registry holds under that name.
\<close>

theorem sendNotification_invalid:
  assumes "channel \<notin> channels"
  shows "\<exists>w'. sendNotification channel msg (this, w) = Inr (this, w') \<and>
              cout w' = cout w @ ''Invalid notification type: '' @ channel @ endl \<and>
              calls w' = calls w \<and>
              objects w' = objects w"
  by (simp add: sendNotification_def createNotification_unknown [OF assms])

theorem sendNotification_invalid_witness:
  "''fax'' \<notin> channels \<and>
   (\<exists>w'. sendNotification ''fax'' ''hello''
            (\<lparr>subscribers = [''fax'' \<mapsto> [1]]\<rparr>,
             \<lparr>objects = [1 \<mapsto> User ''Alice''], cout = [], calls = []\<rparr>)
          = Inr (\<lparr>subscribers = [''fax'' \<mapsto> [1]]\<rparr>, w') \<and>
         cout w' = ''Invalid notification type: fax'' @ endl \<and>
         calls w' = [])"
proof -
  have c: "''fax'' \<notin> channels"
    by (simp add: channels_def)
  from sendNotification_invalid [OF c, of "''hello''" "\<lparr>subscribers = [''fax'' \<mapsto> [1]]\<rparr>"
      "\<lparr>objects = [1 \<mapsto> User ''Alice''], cout = [], calls = []\<rparr>"] c
  show ?thesis
    by auto
qed

text \<open>
  C3. The factory maps \<open>email\<close>, \<open>sms\<close> and \<open>push\<close> to the Email, SMS and Push
  notification and every other string to the absent result. It is pure: it returns the
  world as it was given, and its result does not depend on the world.
\<close>

theorem createNotification_factory:
  "createNotification ''email'' w = (Some EmailNotification, w) \<and>
   createNotification ''sms'' w = (Some SMSNotification, w) \<and>
   createNotification ''push'' w = (Some PushNotification, w) \<and>
   (type \<notin> {''email'', ''sms'', ''push''} \<longrightarrow> createNotification type w = (None, w)) \<and>
   snd (createNotification type w) = w \<and>
   fst (createNotification type w) = fst (createNotification type w0)"
  by (simp add: createNotification_def)

theorem createNotification_factory_witness:
  "''Email'' \<notin> {''email'', ''sms'', ''push''} \<and>
   createNotification ''Email'' \<lparr>objects = Map.empty, cout = ''x'', calls = []\<rparr>
     = (None, \<lparr>objects = Map.empty, cout = ''x'', calls = []\<rparr>)"
  using createNotification_factory [of "\<lparr>objects = Map.empty, cout = ''x'', calls = []\<rparr>" "''Email''"]
  by simp

text \<open>
  C4. \<open>subscribe\<close> puts the subscriber at the end of the channel's sequence, which starts
  empty when the channel was absent; the other channels and the world stay as they were.
  Nothing is deduplicated: after two subscriptions of one subscriber the sequence ends with
  it twice, and a notification on the channel then updates it two times more than the
  number of times it was subscribed before.
\<close>

theorem subscribe_appends:
  "subscribe channel a (this, w) =
     (this\<lparr>subscribers := (subscribers this)(channel \<mapsto> subscribers_of this channel @ [a])\<rparr>, w) \<and>
   subscribers_of (fst (subscribe channel a (this, w))) channel = subscribers_of this channel @ [a] \<and>
   (other \<noteq> channel \<longrightarrow>
      subscribers (fst (subscribe channel a (this, w))) other = subscribers this other) \<and>
   subscribers_of (fst (subscribe channel a (subscribe channel a (this, w)))) channel
     = subscribers_of this channel @ [a, a] \<and>
   (channel \<in> channels \<and> live w (a # subscribers_of this channel) \<longrightarrow>
      (\<exists>this' w'.
         sendNotification channel msg (subscribe channel a (subscribe channel a (this, w)))
           = Inr (this', w') \<and>
         count_list (calls w') (Update a msg)
           = count_list (calls w) (Update a msg) + count_list (subscribers_of this channel) a + 2))"
proof -
  have one: "\<And>this w. subscribe channel a (this, w) =
     (this\<lparr>subscribers := (subscribers this)(channel \<mapsto> subscribers_of this channel @ [a])\<rparr>, w)"
    by (simp add: subscribe_def operator_index_def subscribers_of_def split: option.splits)
  have two: "subscribers_of (fst (subscribe channel a (subscribe channel a (this, w)))) channel
     = subscribers_of this channel @ [a, a]"
    by (simp add: one subscribers_of_def)
  have dup: "\<exists>this' w'.
         sendNotification channel msg (subscribe channel a (subscribe channel a (this, w)))
           = Inr (this', w') \<and>
         count_list (calls w') (Update a msg)
           = count_list (calls w) (Update a msg) + count_list (subscribers_of this channel) a + 2"
    if c: "channel \<in> channels" and l: "live w (a # subscribers_of this channel)"
  proof -
    obtain this2 where s2: "subscribe channel a (subscribe channel a (this, w)) = (this2, w)"
      by (simp add: one)
    from two s2 have vec: "subscribers_of this2 channel = subscribers_of this channel @ [a, a]"
      by simp
    from l have l2: "live w (subscribers_of this2 channel)"
      by (simp add: vec live_def)
    from sendNotification_known [OF c l2, of msg] obtain n w' where
      r: "sendNotification channel msg (this2, w) = Inr (this2, w')" and
      cs: "calls w' = calls w @ Send n msg # map (\<lambda>a. Update a msg) (subscribers_of this2 channel)"
      by simp
    have cnt: "count_list (map (\<lambda>a. Update a msg) vec) (Update a msg) = count_list vec a" for vec
      by (induction vec) simp_all
    from cs have "count_list (calls w') (Update a msg)
        = count_list (calls w) (Update a msg) + count_list (subscribers_of this channel) a + 2"
      by (simp add: vec cnt)
    with r s2 show ?thesis
      by simp
  qed
  show ?thesis
    using one [of this w] two dup by (simp add: subscribers_of_def)
qed

theorem subscribe_appends_witness:
  "''sms'' \<noteq> ''push'' \<and>
   ''push'' \<in> channels \<and>
   live \<lparr>objects = [1 \<mapsto> User ''Alice'', 2 \<mapsto> User ''Bob''], cout = [], calls = []\<rparr>
     (2 # subscribers_of \<lparr>subscribers = [''sms'' \<mapsto> [2], ''push'' \<mapsto> [1]]\<rparr> ''push'') \<and>
   subscribers_of
     (fst (subscribe ''push'' 2
        (\<lparr>subscribers = [''sms'' \<mapsto> [2], ''push'' \<mapsto> [1]]\<rparr>,
         \<lparr>objects = [1 \<mapsto> User ''Alice'', 2 \<mapsto> User ''Bob''], cout = [], calls = []\<rparr>))) ''push''
     = [1, 2] \<and>
   subscribers
     (fst (subscribe ''push'' 2
        (\<lparr>subscribers = [''sms'' \<mapsto> [2], ''push'' \<mapsto> [1]]\<rparr>,
         \<lparr>objects = [1 \<mapsto> User ''Alice'', 2 \<mapsto> User ''Bob''], cout = [], calls = []\<rparr>))) ''sms''
     = Some [2] \<and>
   (\<exists>this' w'.
      sendNotification ''push'' ''hi''
        (subscribe ''push'' 2 (subscribe ''push'' 2
           (\<lparr>subscribers = [''sms'' \<mapsto> [2], ''push'' \<mapsto> [1]]\<rparr>,
            \<lparr>objects = [1 \<mapsto> User ''Alice'', 2 \<mapsto> User ''Bob''], cout = [], calls = []\<rparr>)))
        = Inr (this', w') \<and>
      count_list (calls w') (Update 2 ''hi'') = 2)"
proof -
  let ?w = "\<lparr>objects = [1 \<mapsto> User ''Alice'', 2 \<mapsto> User ''Bob''], cout = [], calls = []\<rparr>"
  let ?mgr = "\<lparr>subscribers = [''sms'' \<mapsto> [2], ''push'' \<mapsto> [1]]\<rparr>"
  have d: "''sms'' \<noteq> ''push''"
    by simp
  have c: "''push'' \<in> channels"
    by (simp add: channels_def)
  have l: "live ?w (2 # subscribers_of ?mgr ''push'')"
    by (simp add: live_def subscribers_of_def)
  have v: "subscribers_of ?mgr ''push'' = [1]"
    by (simp add: subscribers_of_def)
  from subscribe_appends [of "''push''" 2 ?mgr ?w "''sms''" "''hi''"] d c l show ?thesis
    unfolding v by auto
qed

text \<open>
  C5. When the channel is a key of the registry and its subscribers are alive,
  \<open>notifySubscribers\<close> completes, leaves the manager as it was, and calls \<open>update\<close> with
  the message once for each subscriber of the channel's sequence, front to back, each
  printing its line. When the channel has no subscribers (it is absent, or its sequence is
  empty) the call returns the state untouched: no output, no call, no fault. The sequence
  is in insertion order: in a state reached from a fresh manager by a series of member
  calls it lists the subscribers in the order of the \<open>subscribe\<close> calls on the channel.
\<close>

theorem notifySubscribers_updates:
  "(subscribers this channel = Some vec \<and> live w vec \<longrightarrow>
      (\<exists>w'. notifySubscribers channel msg (this, w) = Inr (this, w') \<and>
            calls w' = calls w @ map (\<lambda>a. Update a msg) vec \<and>
            cout w' = cout w @ concat (map (received_line w msg) vec) \<and>
            objects w' = objects w)) \<and>
   (subscribers this channel = None \<longrightarrow> notifySubscribers channel msg (this, w) = Inr (this, w)) \<and>
   (subscribers_of this channel = [] \<longrightarrow> notifySubscribers channel msg (this, w) = Inr (this, w)) \<and>
   (statements (map perform reqs) (NotificationManager_new, w0) = Inr (this, w) \<and>
    subscribers this channel = Some vec \<longrightarrow> vec = registered channel reqs)"
proof -
  have "live w (subscribers_of this channel)" if "subscribers_of this channel = []"
    using that by (simp add: live_def)
  then have none: "notifySubscribers channel msg (this, w) = Inr (this, w)"
    if "subscribers_of this channel = []"
    using that by (simp add: notifySubscribers_live)
  have order: "vec = registered channel reqs"
    if "statements (map perform reqs) (NotificationManager_new, w0) = Inr (this, w)"
      and "subscribers this channel = Some vec"
    using registration_order [OF that(1), of channel] that(2)
    by (simp add: subscribers_of_def)
  from none order show ?thesis
    by (simp add: notifySubscribers_present notifySubscribers_absent)
qed

theorem notifySubscribers_updates_witness:
  "subscribers \<lparr>subscribers = [''fax'' \<mapsto> [2, 1]]\<rparr> ''fax'' = Some [2, 1] \<and>
   live \<lparr>objects = [1 \<mapsto> User ''Alice'', 2 \<mapsto> User ''Bob''], cout = ''x'', calls = []\<rparr> [2, 1] \<and>
   (\<exists>w'. notifySubscribers ''fax'' ''hi''
            (\<lparr>subscribers = [''fax'' \<mapsto> [2, 1]]\<rparr>,
             \<lparr>objects = [1 \<mapsto> User ''Alice'', 2 \<mapsto> User ''Bob''], cout = ''x'', calls = []\<rparr>)
          = Inr (\<lparr>subscribers = [''fax'' \<mapsto> [2, 1]]\<rparr>, w') \<and>
         calls w' = [Update 2 ''hi'', Update 1 ''hi''] \<and>
         cout w' = ''xBob received notification: hi'' @ endl @ ''Alice received notification: hi'' @ endl) \<and>
   subscribers \<lparr>subscribers = [''fax'' \<mapsto> [2, 1]]\<rparr> ''email'' = None \<and>
   subscribers_of \<lparr>subscribers = [''fax'' \<mapsto> [2, 1]]\<rparr> ''email'' = [] \<and>
   notifySubscribers ''email'' ''hi''
     (\<lparr>subscribers = [''fax'' \<mapsto> [2, 1]]\<rparr>,
      \<lparr>objects = [1 \<mapsto> User ''Alice'', 2 \<mapsto> User ''Bob''], cout = ''x'', calls = []\<rparr>)
     = Inr (\<lparr>subscribers = [''fax'' \<mapsto> [2, 1]]\<rparr>,
            \<lparr>objects = [1 \<mapsto> User ''Alice'', 2 \<mapsto> User ''Bob''], cout = ''x'', calls = []\<rparr>) \<and>
   statements (map perform [Subscribe ''fax'' 2, Subscribe ''fax'' 1])
     (NotificationManager_new,
      \<lparr>objects = [1 \<mapsto> User ''Alice'', 2 \<mapsto> User ''Bob''], cout = ''x'', calls = []\<rparr>)
     = Inr (\<lparr>subscribers = [''fax'' \<mapsto> [2, 1]]\<rparr>,
            \<lparr>objects = [1 \<mapsto> User ''Alice'', 2 \<mapsto> User ''Bob''], cout = ''x'', calls = []\<rparr>) \<and>
   [2, 1] = registered ''fax'' [Subscribe ''fax'' 2, Subscribe ''fax'' 1]"
proof -
  let ?w = "\<lparr>objects = [1 \<mapsto> User ''Alice'', 2 \<mapsto> User ''Bob''], cout = ''x'', calls = []\<rparr>"
  let ?mgr = "\<lparr>subscribers = [''fax'' \<mapsto> [2, 1]]\<rparr>"
  let ?reqs = "[Subscribe ''fax'' 2, Subscribe ''fax'' 1]"
  have p: "subscribers ?mgr ''fax'' = Some [2, 1]"
    by simp
  have l: "live ?w [2, 1]"
    by (simp add: live_def)
  have a: "subscribers ?mgr ''email'' = None"
    by simp
  have e: "subscribers_of ?mgr ''email'' = []"
    by (simp add: subscribers_of_def)
  have run: "statements (map perform ?reqs) (NotificationManager_new, ?w) = Inr (?mgr, ?w)"
    by (simp add: NotificationManager_new_def subscribe_def operator_index_def)
  note fax = notifySubscribers_updates [of ?mgr "''fax''" "[2, 1]" ?w "''hi''" ?reqs ?w]
  from fax p l
  have first: "\<exists>w'. notifySubscribers ''fax'' ''hi'' (?mgr, ?w) = Inr (?mgr, w') \<and>
         calls w' = [Update 2 ''hi'', Update 1 ''hi''] \<and>
         cout w' = ''xBob received notification: hi'' @ endl @ ''Alice received notification: hi'' @ endl"
    by (auto simp: received_line_def)
  from fax run p have order: "[2, 1] = registered ''fax'' ?reqs"
    by blast
  from notifySubscribers_updates [of ?mgr "''email''" "[]" ?w "''hi''" ?reqs ?w] a
  have second: "notifySubscribers ''email'' ''hi'' (?mgr, ?w) = Inr (?mgr, ?w)"
    by blast
  from p l a e first second run order show ?thesis
    by blast
qed

text \<open>
  C6. On a known channel whose registered subscribers are alive and carry the names
  \<open>names\<close>, position by position, \<open>sendNotification\<close> appends to the output exactly the
  channel's line (\<open>Sending Email: \<close>, \<open>Sending SMS: \<close> or \<open>Sending Push Notification: \<close>,
  then the message and a newline) and after it, for each registered subscriber in order,
  the line \<open><name> received notification: <message>\<close>. The order is that of registration:
  in a state reached from a fresh manager by a series of member calls the channel's
  sequence lists the subscribers in the order of the \<open>subscribe\<close> calls on the channel.
\<close>

theorem sendNotification_output:
  assumes "channel \<in> channels"
      and "map (objects w) (subscribers_of this channel) = map (\<lambda>n. Some (User n)) names"
  shows "\<exists>w'. sendNotification channel msg (this, w) = Inr (this, w') \<and>
              cout w' =
                cout w
                @ (if channel = ''email'' then ''Sending Email: ''
                   else if channel = ''sms'' then ''Sending SMS: ''
                   else ''Sending Push Notification: '') @ msg @ endl
                @ concat (map (\<lambda>n. n @ '' received notification: '' @ msg @ endl) names) \<and>
              (statements (map perform reqs) (NotificationManager_new, w0) = Inr (this, w) \<longrightarrow>
                 subscribers_of this channel = registered channel reqs)"
proof -
  from named_subscribers [OF assms(2), of msg]
  have l: "live w (subscribers_of this channel)"
    and lines: "map (received_line w msg) (subscribers_of this channel) =
                map (\<lambda>n. n @ '' received notification: '' @ msg @ endl) names"
    by simp_all
  show ?thesis
    using registration_order [of reqs w0 this w channel]
    by (simp add: sendNotification_known [OF assms(1) l] send_cout lines)
qed

theorem sendNotification_output_witness:
  "''push'' \<in> channels \<and>
   map (objects \<lparr>objects = [1 \<mapsto> User ''Alice'', 2 \<mapsto> User ''Bob''], cout = [], calls = []\<rparr>)
     (subscribers_of \<lparr>subscribers = [''push'' \<mapsto> [1, 2]]\<rparr> ''push'')
     = map (\<lambda>n. Some (User n)) [''Alice'', ''Bob''] \<and>
   statements (map perform [Subscribe ''push'' 1, Subscribe ''push'' 2])
     (NotificationManager_new,
      \<lparr>objects = [1 \<mapsto> User ''Alice'', 2 \<mapsto> User ''Bob''], cout = [], calls = []\<rparr>)
     = Inr (\<lparr>subscribers = [''push'' \<mapsto> [1, 2]]\<rparr>,
            \<lparr>objects = [1 \<mapsto> User ''Alice'', 2 \<mapsto> User ''Bob''], cout = [], calls = []\<rparr>) \<and>
   (\<exists>w'. sendNotification ''push'' ''Done.''
            (\<lparr>subscribers = [''push'' \<mapsto> [1, 2]]\<rparr>,
             \<lparr>objects = [1 \<mapsto> User ''Alice'', 2 \<mapsto> User ''Bob''], cout = [], calls = []\<rparr>)
          = Inr (\<lparr>subscribers = [''push'' \<mapsto> [1, 2]]\<rparr>, w') \<and>
         cout w' = ''Sending Push Notification: Done.'' @ endl
                   @ ''Alice received notification: Done.'' @ endl
                   @ ''Bob received notification: Done.'' @ endl) \<and>
   subscribers_of \<lparr>subscribers = [''push'' \<mapsto> [1, 2]]\<rparr> ''push''
     = registered ''push'' [Subscribe ''push'' 1, Subscribe ''push'' 2]"
proof -
  let ?w = "\<lparr>objects = [1 \<mapsto> User ''Alice'', 2 \<mapsto> User ''Bob''], cout = [], calls = []\<rparr>"
  let ?mgr = "\<lparr>subscribers = [''push'' \<mapsto> [1, 2]]\<rparr>"
  let ?reqs = "[Subscribe ''push'' 1, Subscribe ''push'' 2]"
  have c: "''push'' \<in> channels"
    by (simp add: channels_def)
  have n: "map (objects ?w) (subscribers_of ?mgr ''push'') = map (\<lambda>n. Some (User n)) [''Alice'', ''Bob'']"
    by (simp add: subscribers_of_def)
  have run: "statements (map perform ?reqs) (NotificationManager_new, ?w) = Inr (?mgr, ?w)"
    by (simp add: NotificationManager_new_def subscribe_def operator_index_def)
  note inst = sendNotification_output [OF c n, of "''Done.''" ?reqs ?w]
  from inst run have order: "subscribers_of ?mgr ''push'' = registered ''push'' ?reqs"
    by blast
  from inst have "\<exists>w'. sendNotification ''push'' ''Done.'' (?mgr, ?w) = Inr (?mgr, w') \<and>
      cout w' = ''Sending Push Notification: Done.'' @ endl
                @ ''Alice received notification: Done.'' @ endl
                @ ''Bob received notification: Done.'' @ endl"
    by auto
  with c n run order show ?thesis
    by blast
qed

text \<open>
  C7. When the process starts no manager exists. The first \<open>getInstance\<close> creates one, with
  an empty registry, and returns its address; a call in a process whose instance pointer is
  set returns that pointer and changes nothing. So any number of calls in a row return the
  same address and leave exactly one manager, and after any sequence of member calls made
  through \<open>getInstance\<close> there is exactly one manager and \<open>getInstance\<close> returns its address.
\<close>

theorem getInstance_singleton:
  "instance_ptr process_start = None \<and> heap process_start = [] \<and>
   getInstance process_start =
     (Some 0, \<lparr>instance_ptr = Some 0, heap = [NotificationManager_new]\<rparr>) \<and>
   (instance_ptr p \<noteq> None \<longrightarrow> getInstance p = (instance_ptr p, p)) \<and>
   getInstance_calls (Suc n) process_start =
     (replicate (Suc n) (Some 0), \<lparr>instance_ptr = Some 0, heap = [NotificationManager_new]\<rparr>) \<and>
   (reqs \<noteq> [] \<and> statements (map on_instance reqs) (process_start, w) = Inr (p', w') \<longrightarrow>
      instance_ptr p' = Some 0 \<and> length (heap p') = 1 \<and> getInstance p' = (Some 0, p'))"
proof -
  have start: "instance_ptr process_start = None \<and> heap process_start = []"
    by (simp add: process_start_def)
  have later: "getInstance p = (instance_ptr p, p)" if "instance_ptr p \<noteq> None"
    using that by (auto simp: getInstance_created)
  have calls: "getInstance_calls (Suc n) process_start =
     (replicate (Suc n) (Some 0), \<lparr>instance_ptr = Some 0, heap = [NotificationManager_new]\<rparr>)"
    by (simp add: getInstance_start getInstance_calls_created)
  have reach: "instance_ptr p' = Some 0 \<and> length (heap p') = 1 \<and> getInstance p' = (Some 0, p')"
    if "reqs \<noteq> []" and "statements (map on_instance reqs) (process_start, w) = Inr (p', w')"
    using statements_on_instance_single [OF that(2) that(1)] start
    by (simp add: getInstance_created)
  from start getInstance_start later calls reach show ?thesis
    by blast
qed

theorem getInstance_singleton_witness:
  "instance_ptr \<lparr>instance_ptr = Some 0, heap = [\<lparr>subscribers = [''email'' \<mapsto> [1]]\<rparr>]\<rparr> \<noteq> None \<and>
   getInstance \<lparr>instance_ptr = Some 0, heap = [\<lparr>subscribers = [''email'' \<mapsto> [1]]\<rparr>]\<rparr>
     = (Some 0, \<lparr>instance_ptr = Some 0, heap = [\<lparr>subscribers = [''email'' \<mapsto> [1]]\<rparr>]\<rparr>) \<and>
   getInstance_calls 3 process_start =
     ([Some 0, Some 0, Some 0], \<lparr>instance_ptr = Some 0, heap = [NotificationManager_new]\<rparr>) \<and>
   [Subscribe ''email'' 1, SendNotification ''email'' ''hi''] \<noteq> [] \<and>
   statements (map on_instance [Subscribe ''email'' 1, SendNotification ''email'' ''hi''])
     (process_start, \<lparr>objects = [1 \<mapsto> User ''Alice''], cout = [], calls = []\<rparr>)
     = Inr (\<lparr>instance_ptr = Some 0, heap = [\<lparr>subscribers = [''email'' \<mapsto> [1]]\<rparr>]\<rparr>,
            \<lparr>objects = [1 \<mapsto> User ''Alice''],
             cout = ''Sending Email: hi'' @ endl @ ''Alice received notification: hi'' @ endl,
             calls = [Send EmailNotification ''hi'', Update 1 ''hi'']\<rparr>) \<and>
   length (heap \<lparr>instance_ptr = Some 0, heap = [\<lparr>subscribers = [''email'' \<mapsto> [1]]\<rparr>]\<rparr>) = 1"
proof -
  let ?w = "\<lparr>objects = [1 \<mapsto> User ''Alice''], cout = [], calls = []\<rparr>"
  let ?w' = "\<lparr>objects = [1 \<mapsto> User ''Alice''],
             cout = ''Sending Email: hi'' @ endl @ ''Alice received notification: hi'' @ endl,
             calls = [Send EmailNotification ''hi'', Update 1 ''hi'']\<rparr>"
  let ?p = "\<lparr>instance_ptr = Some 0, heap = [\<lparr>subscribers = [''email'' \<mapsto> [1]]\<rparr>]\<rparr>"
  let ?reqs = "[Subscribe ''email'' 1, SendNotification ''email'' ''hi'']"
  have set: "instance_ptr ?p \<noteq> None"
    by simp
  have ne: "?reqs \<noteq> []"
    by simp
  have run: "statements (map on_instance ?reqs) (process_start, ?w) = Inr (?p, ?w')"
    by (simp add: on_instance_def getInstance_def process_start_def call_on_def
        NotificationManager_new_def subscribe_def operator_index_def sendNotification_def
        createNotification_def send_def EmailNotification_send_def notifySubscribers_def
        update_def User_update_def)
  have three: "Suc 2 = 3"
    by simp
  have r: "replicate 3 (Some (0::nat)) = [Some 0, Some 0, Some 0]"
    by (simp add: numeral_3_eq_3)
  note inst = getInstance_singleton [of ?p 2 ?reqs ?w ?p ?w', unfolded three r]
  from inst have c3: "getInstance_calls 3 process_start =
      ([Some 0, Some 0, Some 0], \<lparr>instance_ptr = Some 0, heap = [NotificationManager_new]\<rparr>)"
    by blast
  from inst set have g: "getInstance ?p = (Some 0, ?p)"
    by simp
  from inst ne run have len: "length (heap ?p) = 1"
    by blast
  from set g c3 ne run len show ?thesis
    by blast
qed

text \<open>
  C8. After lines 113 to 123 of \<open>main\<close> the one manager holds Alice under \<open>email\<close>, Bob under
  \<open>sms\<close> and Alice, then Bob, under \<open>push\<close>, and nothing has been printed. The call
  \<open>manager->sendNotification("email", "Your order has been placed.")\<close> in that state
  completes, and the output is then exactly the line
  \<open>Sending Email: Your order has been placed.\<close> followed by the line
  \<open>Alice received notification: Your order has been placed.\<close>. The two users are distinct
  objects, so their addresses differ.
\<close>

theorem main_email_output:
  assumes "alice \<noteq> bob"
  shows "\<exists>p w p' w'.
           main_subscribe alice bob = (Some 0, Inr (p, w)) \<and>
           heap p = [\<lparr>subscribers = [''email'' \<mapsto> [alice], ''sms'' \<mapsto> [bob], ''push'' \<mapsto> [alice, bob]]\<rparr>] \<and>
           objects w = [alice \<mapsto> User ''Alice'', bob \<mapsto> User ''Bob''] \<and>
           cout w = [] \<and>
           call_on (Some 0) (sendNotification ''email'' ''Your order has been placed.'') (p, w)
             = Inr (p', w') \<and>
           cout w' = ''Sending Email: Your order has been placed.'' @ endl
                     @ ''Alice received notification: Your order has been placed.'' @ endl"
proof -
  let ?w = "\<lparr>objects = [alice \<mapsto> User ''Alice'', bob \<mapsto> User ''Bob''], cout = [], calls = []\<rparr>"
  let ?mgr = "\<lparr>subscribers = [''email'' \<mapsto> [alice], ''sms'' \<mapsto> [bob], ''push'' \<mapsto> [alice, bob]]\<rparr>"
  let ?p = "\<lparr>instance_ptr = Some 0, heap = [?mgr]\<rparr>"
  have init: "main_subscribe alice bob = (Some 0, Inr (?p, ?w))"
    by (simp add: main_subscribe_def getInstance_start call_on_def NotificationManager_new_def
        subscribe_def operator_index_def)
  have c: "''email'' \<in> channels"
    by (simp add: channels_def)
  have names: "map (objects ?w) (subscribers_of ?mgr ''email'') = map (\<lambda>n. Some (User n)) [''Alice'']"
    using assms by (simp add: subscribers_of_def)
  have l: "live ?w (subscribers_of ?mgr ''email'')"
    using named_subscribers [OF names] by simp
  have lines: "map (received_line ?w ''Your order has been placed.'') (subscribers_of ?mgr ''email'')
      = [''Alice received notification: Your order has been placed.'' @ endl]"
    using named_subscribers [OF names, of "''Your order has been placed.''"] by simp
  have "\<exists>w'. sendNotification ''email'' ''Your order has been placed.'' (?mgr, ?w) = Inr (?mgr, w') \<and>
      cout w' = ''Sending Email: Your order has been placed.'' @ endl
                @ ''Alice received notification: Your order has been placed.'' @ endl"
    by (simp add: sendNotification_known [OF c l] send_cout lines)
  then obtain w' where
    r: "sendNotification ''email'' ''Your order has been placed.'' (?mgr, ?w) = Inr (?mgr, w')" and
    out: "cout w' = ''Sending Email: Your order has been placed.'' @ endl
                @ ''Alice received notification: Your order has been placed.'' @ endl"
    by blast
  from r have "call_on (Some 0) (sendNotification ''email'' ''Your order has been placed.'') (?p, ?w)
      = Inr (?p, w')"
    by (simp add: call_on_def)
  with init out show ?thesis
    by (intro exI [of _ ?p] exI [of _ ?w] exI [of _ w']) simp
qed

theorem main_email_output_witness:
  "(1::nat) \<noteq> 2 \<and>
   (\<exists>p w p' w'.
      main_subscribe 1 2 = (Some 0, Inr (p, w)) \<and>
      heap p = [\<lparr>subscribers = [''email'' \<mapsto> [1], ''sms'' \<mapsto> [2], ''push'' \<mapsto> [1, 2]]\<rparr>] \<and>
      call_on (Some 0) (sendNotification ''email'' ''Your order has been placed.'') (p, w)
        = Inr (p', w') \<and>
      cout w' = ''Sending Email: Your order has been placed.'' @ endl
                @ ''Alice received notification: Your order has been placed.'' @ endl)"
proof -
  have d: "(1::nat) \<noteq> 2"
    by simp
  from main_email_output [OF d] d show ?thesis
    by blast
qed

text \<open>
  C9. Whenever \<open>notifySubscribers\<close> or \<open>sendNotification\<close> returns, the manager it returns is
  the manager it was given: the registry is the same map, so a channel that was absent is
  still absent and no empty entry has appeared. This holds for every channel name, known to
  the factory or not, present in the registry or not. Both calls do return when the
  channel's registered subscribers are alive.
\<close>

theorem registry_unchanged:
  "(notifySubscribers channel msg (this, w) = Inr (this1, w1) \<longrightarrow>
      this1 = this \<and> subscribers this1 = subscribers this) \<and>
   (sendNotification channel msg (this, w) = Inr (this2, w2) \<longrightarrow>
      this2 = this \<and> subscribers this2 = subscribers this) \<and>
   (live w (subscribers_of this channel) \<longrightarrow>
      (\<exists>w'. notifySubscribers channel msg (this, w) = Inr (this, w')) \<and>
      (\<exists>w'. sendNotification channel msg (this, w) = Inr (this, w')))"
proof -
  have n: "this1 = this" if "notifySubscribers channel msg (this, w) = Inr (this1, w1)"
    using that by (rule notifySubscribers_frame)
  have s: "this2 = this" if "sendNotification channel msg (this, w) = Inr (this2, w2)"
    using that by (rule sendNotification_frame)
  have t: "(\<exists>w'. notifySubscribers channel msg (this, w) = Inr (this, w')) \<and>
           (\<exists>w'. sendNotification channel msg (this, w) = Inr (this, w'))"
    if l: "live w (subscribers_of this channel)"
  proof (cases "channel \<in> channels")
    case True
    then show ?thesis
      by (simp add: notifySubscribers_live [OF l] sendNotification_known [OF True l])
  next
    case False
    then show ?thesis
      by (simp add: notifySubscribers_live [OF l] sendNotification_def createNotification_unknown)
  qed
  from n s t show ?thesis
    by blast
qed

theorem registry_unchanged_witness:
  "notifySubscribers ''fax'' ''hi''
     (\<lparr>subscribers = [''email'' \<mapsto> [1]]\<rparr>, \<lparr>objects = [1 \<mapsto> User ''Alice''], cout = [], calls = []\<rparr>)
     = Inr (\<lparr>subscribers = [''email'' \<mapsto> [1]]\<rparr>,
            \<lparr>objects = [1 \<mapsto> User ''Alice''], cout = [], calls = []\<rparr>) \<and>
   sendNotification ''fax'' ''hi''
     (\<lparr>subscribers = [''email'' \<mapsto> [1]]\<rparr>, \<lparr>objects = [1 \<mapsto> User ''Alice''], cout = [], calls = []\<rparr>)
     = Inr (\<lparr>subscribers = [''email'' \<mapsto> [1]]\<rparr>,
            \<lparr>objects = [1 \<mapsto> User ''Alice''],
             cout = ''Invalid notification type: fax'' @ endl, calls = []\<rparr>) \<and>
   live \<lparr>objects = [1 \<mapsto> User ''Alice''], cout = [], calls = []\<rparr>
     (subscribers_of \<lparr>subscribers = [''email'' \<mapsto> [1]]\<rparr> ''fax'') \<and>
   subscribers \<lparr>subscribers = [''email'' \<mapsto> [1]]\<rparr> ''fax'' = None \<and>
   (\<exists>w'. notifySubscribers ''fax'' ''hi''
            (\<lparr>subscribers = [''email'' \<mapsto> [1]]\<rparr>,
             \<lparr>objects = [1 \<mapsto> User ''Alice''], cout = [], calls = []\<rparr>)
          = Inr (\<lparr>subscribers = [''email'' \<mapsto> [1]]\<rparr>, w')) \<and>
   (\<exists>w'. sendNotification ''fax'' ''hi''
            (\<lparr>subscribers = [''email'' \<mapsto> [1]]\<rparr>,
             \<lparr>objects = [1 \<mapsto> User ''Alice''], cout = [], calls = []\<rparr>)
          = Inr (\<lparr>subscribers = [''email'' \<mapsto> [1]]\<rparr>, w'))"
proof -
  let ?w = "\<lparr>objects = [1 \<mapsto> User ''Alice''], cout = [], calls = []\<rparr>"
  let ?w2 = "\<lparr>objects = [1 \<mapsto> User ''Alice''],
              cout = ''Invalid notification type: fax'' @ endl, calls = []\<rparr>"
  let ?mgr = "\<lparr>subscribers = [''email'' \<mapsto> [1]]\<rparr>"
  have n: "notifySubscribers ''fax'' ''hi'' (?mgr, ?w) = Inr (?mgr, ?w)"
    by (simp add: notifySubscribers_def)
  have s: "sendNotification ''fax'' ''hi'' (?mgr, ?w) = Inr (?mgr, ?w2)"
    by (simp add: sendNotification_def createNotification_def)
  have l: "live ?w (subscribers_of ?mgr ''fax'')"
    by (simp add: live_def subscribers_of_def)
  have a: "subscribers ?mgr ''fax'' = None"
    by simp
  from registry_unchanged [of "''fax''" "''hi''" ?mgr ?w ?mgr ?w ?mgr ?w2] l
  have "(\<exists>w'. notifySubscribers ''fax'' ''hi'' (?mgr, ?w) = Inr (?mgr, w')) \<and>
        (\<exists>w'. sendNotification ''fax'' ''hi'' (?mgr, ?w) = Inr (?mgr, w'))"
    by blast
  with n s l a show ?thesis
    by blast
qed

text \<open>
  C10. A freshly constructed manager has no empty entry in its registry (it has no entry at
  all); \<open>subscribe\<close>, \<open>notifySubscribers\<close> and \<open>sendNotification\<close> each keep the registry free
  of empty entries; hence after any sequence of calls of the three on a fresh manager every
  key of the registry holds a non-empty sequence. The entry that \<open>subscribe\<close> creates or
  finds ends with the new subscriber.
\<close>

theorem registry_entries_nonempty:
  "no_empty_entry NotificationManager_new \<and>
   (no_empty_entry this \<longrightarrow> no_empty_entry (fst (subscribe channel a (this, w)))) \<and>
   (\<exists>vec. subscribers (fst (subscribe channel a (this, w))) channel = Some (vec @ [a])) \<and>
   (no_empty_entry this \<and> notifySubscribers channel msg (this, w) = Inr (this1, w1) \<longrightarrow>
      no_empty_entry this1) \<and>
   (no_empty_entry this \<and> sendNotification channel msg (this, w) = Inr (this2, w2) \<longrightarrow>
      no_empty_entry this2) \<and>
   (statements (map perform reqs) (NotificationManager_new, w) = Inr (this3, w3) \<longrightarrow>
      no_empty_entry this3 \<and> (\<forall>key vec. subscribers this3 key = Some vec \<longrightarrow> vec \<noteq> []))"
proof -
  have fresh: "no_empty_entry NotificationManager_new"
    by (simp add: no_empty_entry_iff NotificationManager_new_def)
  have ends: "\<exists>vec. subscribers (fst (subscribe channel a (this, w))) channel = Some (vec @ [a])"
    by (simp add: subscribe_def operator_index_def split: option.splits)
  have n: "no_empty_entry this1"
    if "no_empty_entry this" and "notifySubscribers channel msg (this, w) = Inr (this1, w1)"
    using that by (auto dest: notifySubscribers_frame)
  have s: "no_empty_entry this2"
    if "no_empty_entry this" and "sendNotification channel msg (this, w) = Inr (this2, w2)"
    using that by (auto dest: sendNotification_frame)
  have reach: "no_empty_entry this3 \<and> (\<forall>key vec. subscribers this3 key = Some vec \<longrightarrow> vec \<noteq> [])"
    if "statements (map perform reqs) (NotificationManager_new, w) = Inr (this3, w3)"
    using statements_perform_no_empty_entry [OF that fresh]
    by (auto simp: no_empty_entry_iff)
  from fresh subscribe_no_empty_entry [of this channel a w] ends n s reach show ?thesis
    by blast
qed

theorem registry_entries_nonempty_witness:
  "no_empty_entry \<lparr>subscribers = [''email'' \<mapsto> [1]]\<rparr> \<and>
   no_empty_entry (fst (subscribe ''fax'' 2
     (\<lparr>subscribers = [''email'' \<mapsto> [1]]\<rparr>,
      \<lparr>objects = [1 \<mapsto> User ''Alice''], cout = [], calls = []\<rparr>))) \<and>
   notifySubscribers ''fax'' ''hi''
     (\<lparr>subscribers = [''email'' \<mapsto> [1]]\<rparr>, \<lparr>objects = [1 \<mapsto> User ''Alice''], cout = [], calls = []\<rparr>)
     = Inr (\<lparr>subscribers = [''email'' \<mapsto> [1]]\<rparr>,
            \<lparr>objects = [1 \<mapsto> User ''Alice''], cout = [], calls = []\<rparr>) \<and>
   sendNotification ''fax'' ''hi''
     (\<lparr>subscribers = [''email'' \<mapsto> [1]]\<rparr>, \<lparr>objects = [1 \<mapsto> User ''Alice''], cout = [], calls = []\<rparr>)
     = Inr (\<lparr>subscribers = [''email'' \<mapsto> [1]]\<rparr>,
            \<lparr>objects = [1 \<mapsto> User ''Alice''],
             cout = ''Invalid notification type: fax'' @ endl, calls = []\<rparr>) \<and>
   statements (map perform [Subscribe ''email'' 1, NotifySubscribers ''fax'' ''hi''])
     (NotificationManager_new, \<lparr>objects = [1 \<mapsto> User ''Alice''], cout = [], calls = []\<rparr>)
     = Inr (\<lparr>subscribers = [''email'' \<mapsto> [1]]\<rparr>,
            \<lparr>objects = [1 \<mapsto> User ''Alice''], cout = [], calls = []\<rparr>) \<and>
   subscribers \<lparr>subscribers = [''email'' \<mapsto> [1]]\<rparr> ''email'' \<noteq> Some []"
proof -
  let ?w = "\<lparr>objects = [1 \<mapsto> User ''Alice''], cout = [], calls = []\<rparr>"
  let ?w2 = "\<lparr>objects = [1 \<mapsto> User ''Alice''],
              cout = ''Invalid notification type: fax'' @ endl, calls = []\<rparr>"
  let ?mgr = "\<lparr>subscribers = [''email'' \<mapsto> [1]]\<rparr>"
  let ?reqs = "[Subscribe ''email'' 1, NotifySubscribers ''fax'' ''hi'']"
  have i: "no_empty_entry ?mgr"
    by (simp add: no_empty_entry_iff)
  have n: "notifySubscribers ''fax'' ''hi'' (?mgr, ?w) = Inr (?mgr, ?w)"
    by (simp add: notifySubscribers_def)
  have s: "sendNotification ''fax'' ''hi'' (?mgr, ?w) = Inr (?mgr, ?w2)"
    by (simp add: sendNotification_def createNotification_def)
  have run: "statements (map perform ?reqs) (NotificationManager_new, ?w) = Inr (?mgr, ?w)"
    by (simp add: NotificationManager_new_def subscribe_def operator_index_def
        notifySubscribers_def)
  note inst = registry_entries_nonempty
    [of ?mgr "''fax''" 2 ?w "''hi''" ?mgr ?w ?mgr ?w2 ?reqs ?mgr ?w]
  from inst i have sub: "no_empty_entry (fst (subscribe ''fax'' 2 (?mgr, ?w)))"
    by blast
  from inst run have "\<forall>key vec. subscribers ?mgr key = Some vec \<longrightarrow> vec \<noteq> []"
    by blast
  then have all: "subscribers ?mgr ''email'' \<noteq> Some []"
    by blast
  from i sub n s run all show ?thesis
    by blast
qed

subsection \<open>The run of the whole program\<close>

text \<open>
  \<open>main\<close> runs to its end without a fault, returns 0 and prints seven lines: two for the
  email, two for the SMS and three for the push notification.
\<close>

lemma main_output:
  assumes "alice \<noteq> bob"
  shows "\<exists>p w. main alice bob = Inr (0, p, w) \<and>
           cout w =
             ''Sending Email: Your order has been placed.'' @ endl
             @ ''Alice received notification: Your order has been placed.'' @ endl
             @ ''Sending SMS: Your order is on the way.'' @ endl
             @ ''Bob received notification: Your order is on the way.'' @ endl
             @ ''Sending Push Notification: Your order has been delivered.'' @ endl
             @ ''Alice received notification: Your order has been delivered.'' @ endl
             @ ''Bob received notification: Your order has been delivered.'' @ endl"
proof -
  let ?w = "\<lparr>objects = [alice \<mapsto> User ''Alice'', bob \<mapsto> User ''Bob''], cout = [], calls = []\<rparr>"
  let ?mgr = "\<lparr>subscribers = [''email'' \<mapsto> [alice], ''sms'' \<mapsto> [bob], ''push'' \<mapsto> [alice, bob]]\<rparr>"
  let ?p = "\<lparr>instance_ptr = Some 0, heap = [?mgr]\<rparr>"
  have init: "main_subscribe alice bob = (Some 0, Inr (?p, ?w))"
    by (simp add: main_subscribe_def getInstance_start call_on_def NotificationManager_new_def
        subscribe_def operator_index_def)
  show ?thesis
    using assms
    by (simp add: main_def init call_on_def sendNotification_def createNotification_def send_def
        EmailNotification_send_def SMSNotification_send_def PushNotification_send_def
        notifySubscribers_def operator_index_def update_def User_update_def)
qed

end
